theory Spec2Isabelle
  imports Main "HOL-Library.Sublist"
begin

section \<open>The record model of securedrop/db.py\<close>

text \<open>
  The module declares four mapped classes (Source, Submission, SourceStar, Journalist)
  and the helper \<open>get_one_or_else\<close>. Each class is a record whose fields are the
  columns and the plain attributes its methods read or write. A nullable column, and a
  column that is only filled when the row is flushed, is an \<open>option\<close>. Python text is
  a \<open>string\<close>, Python integers are \<open>int\<close>, byte strings are lists of byte values.

  A record field is a constant, so a field name is used once: the columns \<open>id\<close> and
  \<open>size\<close> carry the name of their class, as does the \<open>source_id\<close> of Submission
  (SourceStar keeps the plain name).
\<close>

type_synonym bytes = "nat list"

datatype error =
    NoResultFound string
  | MultipleResultsFound string
  | UnboundLocalError string
  | AttributeError string
  | KeyError string
  | Abort int

subsection \<open>Text operations of the Python library used by the module\<close>

text \<open>
  A character is a byte. \<open>lower\<close> turns the letters A to Z into a to z and leaves
  every other byte as it is; \<open>replace_char\<close> is \<open>replace\<close> for a one-character
  pattern and replacement; \<open>endswith\<close> is the suffix test. This is \<open>lower\<close> as it
  acts on byte strings and on ASCII text. On text with code points beyond a byte the
  library's \<open>lower\<close> does more (it sends the Kelvin sign U+212A to \<open>k\<close>), and that
  is outside this model.
\<close>

definition lower_char :: "char \<Rightarrow> char" where
  "lower_char c =
     (if 65 \<le> (of_char c :: nat) \<and> (of_char c :: nat) \<le> 90
      then char_of (of_char c + 32 :: nat) else c)"

definition lower :: "string \<Rightarrow> string" where
  "lower s = map lower_char s"

definition replace_char :: "char \<Rightarrow> char \<Rightarrow> string \<Rightarrow> string" where
  "replace_char old new s = map (\<lambda>c. if c = old then new else c) s"

definition endswith :: "string \<Rightarrow> string \<Rightarrow> bool" where
  "endswith s suf = suffix suf s"

subsection \<open>Submission\<close>

record submission =
  submission_id :: "int option"
  submission_source_id :: "int option"
  filename :: string
  submission_size :: int
  downloaded :: "bool option"

subsection \<open>Source\<close>

type_synonym counts = "string \<rightharpoonup> int"

record source =
  src_id :: "int option"
  filesystem_id :: "string option"
  journalist_designation :: "string option"
  flagged :: "bool option"
  pending :: "bool option"
  interaction_count :: "int option"
  submissions :: "submission list"
  docs_msgs_count :: "counts option"

text \<open>
  \<open>Source.__init__\<close> assigns the two arguments, both \<open>None\<close> by default. The
  backref collection \<open>submissions\<close> starts empty and the attribute
  \<open>docs_msgs_count\<close> does not exist yet (\<open>None\<close>).
\<close>

definition Source_init :: "string option \<Rightarrow> string option \<Rightarrow> source" where
  "Source_init fsid designation =
     \<lparr>src_id = None, filesystem_id = fsid, journalist_designation = designation,
      flagged = None, pending = None, interaction_count = None,
      submissions = [], docs_msgs_count = None\<rparr>"

definition valid_chars :: string where
  "valid_chars = ''abcdefghijklmnopqrstuvwxyz1234567890-_''"

text \<open>
  \<open>journalist_filename\<close>: the designation is lower-cased, each space becomes an
  underscore, and the characters that occur in \<open>valid_chars\<close> are kept. A designation
  that is \<open>None\<close> has no method \<open>lower\<close>.
\<close>

definition journalist_filename :: "source \<Rightarrow> error + string" where
  "journalist_filename self =
     (case journalist_designation self of
        None \<Rightarrow> Inl (AttributeError ''lower'')
      | Some d \<Rightarrow>
          Inr [c \<leftarrow> replace_char CHR '' '' CHR ''_'' (lower d). c \<in> set valid_chars])"

definition incr :: "string \<Rightarrow> counts \<Rightarrow> error + counts" where
  "incr k d = (case d k of None \<Rightarrow> Inl (KeyError k) | Some v \<Rightarrow> Inr (d(k \<mapsto> v + 1)))"

text \<open>
  The loop of \<open>documents_messages_count\<close> over \<open>self.submissions\<close>. The dictionary
  is updated in place, so the loop returns the dictionary as it stands when the loop
  ends, together with the exception that ended it, if any.
\<close>

fun count_submissions :: "submission list \<Rightarrow> counts \<Rightarrow> counts \<times> error option" where
  "count_submissions [] d = (d, None)"
| "count_submissions (s # ss) d =
     (if endswith (filename s) ''msg.gpg'' then
        (case incr ''messages'' d of
           Inl e \<Rightarrow> (d, Some e)
         | Inr d' \<Rightarrow> count_submissions ss d')
      else if endswith (filename s) ''doc.zip.gpg'' then
        (case incr ''documents'' d of
           Inl e \<Rightarrow> (d, Some e)
         | Inr d' \<Rightarrow> count_submissions ss d')
      else count_submissions ss d)"

text \<open>
  \<open>documents_messages_count\<close> returns the attribute \<open>docs_msgs_count\<close> when the
  instance has it. Otherwise it creates the attribute, fills it by the loop and returns
  it. The second component of the result is the instance after the call.
\<close>

definition documents_messages_count :: "source \<Rightarrow> (error + counts) \<times> source" where
  "documents_messages_count self =
     (case docs_msgs_count self of
        Some d \<Rightarrow> (Inr d, self)
      | None \<Rightarrow>
          (case count_submissions (submissions self)
                  [''messages'' \<mapsto> 0, ''documents'' \<mapsto> 0] of
             (d, err) \<Rightarrow>
               (let self' = self\<lparr>docs_msgs_count := Some d\<rparr>
                in case err of Some e \<Rightarrow> (Inl e, self') | None \<Rightarrow> (Inr d, self'))))"

subsection \<open>SourceStar\<close>

record source_star =
  star_id :: "int option"
  source_id :: "int option"
  starred :: "bool option"

definition SourceStar_init :: "source \<Rightarrow> bool \<Rightarrow> source_star" where
  "SourceStar_init src st = \<lparr>star_id = None, source_id = src_id src, starred = Some st\<rparr>"

subsection \<open>Journalist\<close>

record scrypt_params =
  scrypt_N :: int
  scrypt_r :: int
  scrypt_p :: int

record journalist =
  journalist_id :: "int option"
  username :: string
  pw_salt :: bytes
  pw_hash :: bytes
  is_admin :: bool
  created_on :: "int option"
  last_access :: "int option"

text \<open>
  Two functions of other libraries are parameters of the model. \<open>urandom n\<close> stands for
  the bytes that \<open>os.urandom(n)\<close> hands out at this call. \<open>kdf password salt params\<close>
  stands for \<open>scrypt.hash(str(password), salt, N, r, p)\<close>, a function of its
  arguments alone.
\<close>

type_synonym kdf = "string \<Rightarrow> bytes \<Rightarrow> scrypt_params \<Rightarrow> bytes"

definition SCRYPT_PARAMS :: scrypt_params where
  "SCRYPT_PARAMS = \<lparr>scrypt_N = 2 ^ 14, scrypt_r = 8, scrypt_p = 1\<rparr>"

definition gen_salt :: "(nat \<Rightarrow> bytes) \<Rightarrow> nat \<Rightarrow> bytes" where
  "gen_salt urandom salt_bytes = urandom salt_bytes"

definition scrypt_hash :: "kdf \<Rightarrow> string \<Rightarrow> bytes \<Rightarrow> scrypt_params option \<Rightarrow> bytes" where
  "scrypt_hash kdf password salt params =
     kdf password salt (case params of None \<Rightarrow> SCRYPT_PARAMS | Some ps \<Rightarrow> ps)"

definition Journalist_init ::
  "kdf \<Rightarrow> (nat \<Rightarrow> bytes) \<Rightarrow> string \<Rightarrow> string \<Rightarrow> bool \<Rightarrow> journalist" where
  "Journalist_init kdf urandom uname password admin =
     (let salt = gen_salt urandom 32
      in \<lparr>journalist_id = None, username = uname, pw_salt = salt,
          pw_hash = scrypt_hash kdf password salt None, is_admin = admin,
          created_on = None, last_access = None\<rparr>)"

text \<open>
  \<open>valid_password\<close> is a method: it returns its result and the instance as the call
  leaves it.
\<close>

definition valid_password :: "kdf \<Rightarrow> journalist \<Rightarrow> string \<Rightarrow> bool \<times> journalist" where
  "valid_password kdf self password =
     (scrypt_hash kdf password (pw_salt self) None = pw_hash self, self)"

subsection \<open>Python values\<close>

text \<open>
  \<open>SourceStar.__eq__\<close> takes any object and \<open>Journalist.login\<close> returns a
  journalist, \<open>None\<close> or \<open>False\<close>; \<open>py_object\<close> is the sum of the kinds of value
  that occur. \<open>isinstance(other, SourceStar)\<close> is the test for the constructor
  \<open>A_SourceStar\<close>.
\<close>

datatype py_object =
    A_Source source
  | A_Submission submission
  | A_SourceStar source_star
  | A_Journalist journalist
  | PyNone
  | PyBool bool
  | PyInt int
  | PyStr string

datatype eq_result = Bool bool | NotImplemented

fun SourceStar_eq :: "source_star \<Rightarrow> py_object \<Rightarrow> eq_result" where
  "SourceStar_eq self (A_SourceStar other) =
     Bool (source_id self = source_id other \<and> star_id self = star_id other
           \<and> starred self = starred other)"
| "SourceStar_eq self other = NotImplemented"

subsection \<open>Queries\<close>

text \<open>
  A query is its text (what \<open>str(query)\<close> prints) and the rows it matches.
  \<open>Query.one\<close> belongs to SQLAlchemy: it returns the only row, and raises
  \<open>NoResultFound\<close> or \<open>MultipleResultsFound\<close>, with a fixed message, otherwise.
\<close>

record 'a query =
  query_text :: string
  rows :: "'a list"

definition one :: "'a list \<Rightarrow> error + 'a" where
  "one rs =
     (case rs of
        [] \<Rightarrow> Inl (NoResultFound ''No row was found for one()'')
      | [r] \<Rightarrow> Inr r
      | _ \<Rightarrow> Inl (MultipleResultsFound ''Multiple rows were found for one()''))"

text \<open>
  \<open>get_one_or_else\<close>. The calls of \<open>logger.error\<close> and of \<open>failure_method\<close> are
  recorded, in order, in a list of events. \<open>failure_method code\<close> is \<open>Some x\<close> when
  the handler leaves by raising \<open>x\<close> (\<open>Abort code\<close> for a handler that aborts the
  request with a status code) and \<open>None\<close> when it returns; in the second case the
  function goes on to \<open>return return_value\<close>, a name no branch has bound.
\<close>

datatype event = LoggerError string | FailureMethod int

definition get_one_or_else ::
  "'a query \<Rightarrow> (int \<Rightarrow> error option) \<Rightarrow> (error + 'a) \<times> event list" where
  "get_one_or_else query failure_method =
     (case one (rows query) of
        Inr return_value \<Rightarrow> (Inr return_value, [])
      | Inl (MultipleResultsFound e) \<Rightarrow>
          (let events =
                 [LoggerError (''Found multiple while executing '' @ query_text query
                               @ '' when one was expected: '' @ e),
                  FailureMethod 500]
           in case failure_method 500 of
                Some x \<Rightarrow> (Inl x, events)
              | None \<Rightarrow> (Inl (UnboundLocalError ''return_value''), events))
      | Inl (NoResultFound e) \<Rightarrow>
          (let events =
                 [LoggerError (''Found none when one was expected: '' @ e),
                  FailureMethod 404]
           in case failure_method 404 of
                Some x \<Rightarrow> (Inl x, events)
              | None \<Rightarrow> (Inl (UnboundLocalError ''return_value''), events))
      | Inl x \<Rightarrow> (Inl x, []))"

text \<open>
  What was logged: the messages of the \<open>logger.error\<close> events, and whether one of
  them contains a given text.
\<close>

definition logged :: "event list \<Rightarrow> string list" where
  "logged events = [m. LoggerError m \<leftarrow> events]"

definition logs_text :: "string \<Rightarrow> event list \<Rightarrow> bool" where
  "logs_text t events = list_ex (sublist t) (logged events)"

text \<open>
  \<open>Journalist.login\<close> over the table of journalists. Only \<open>NoResultFound\<close> is
  caught; \<open>MultipleResultsFound\<close> leaves the function. The object that the query
  returns is the stored row itself, so the table after the call holds that row as
  \<open>valid_password\<close> left it.
\<close>

definition login ::
  "kdf \<Rightarrow> journalist list \<Rightarrow> string \<Rightarrow> string \<Rightarrow> (error + py_object) \<times> journalist list" where
  "login kdf table uname password =
     (case one [j \<leftarrow> table. username j = uname] of
        Inl (NoResultFound e) \<Rightarrow> (Inr PyNone, table)
      | Inl x \<Rightarrow> (Inl x, table)
      | Inr user \<Rightarrow>
          (case valid_password kdf user password of
             (ok, user') \<Rightarrow>
               (let table' = map (\<lambda>j. if username j = uname then user' else j) table
                in if ok then (Inr (A_Journalist user'), table')
                   else (Inr (PyBool False), table'))))"

subsection \<open>Concrete values for instances of the theorems\<close>

text \<open>
  \<open>toy_kdf\<close> and \<open>toy_urandom\<close> take the place of the two library functions where a
  theorem is instantiated at a concrete input. They are not part of the module.
\<close>

definition toy_kdf :: kdf where
  "toy_kdf password salt params = map of_char password @ salt"

definition toy_urandom :: "nat \<Rightarrow> bytes" where
  "toy_urandom n = replicate n 7"

text \<open>
  Two failure methods: \<open>aborting\<close> leaves by raising \<open>Abort\<close> with the status code
  it is given, \<open>returning\<close> returns to its caller.
\<close>

definition aborting :: "int \<Rightarrow> error option" where
  "aborting code = Some (Abort code)"

definition returning :: "int \<Rightarrow> error option" where
  "returning code = None"

definition submission_named :: "string \<Rightarrow> submission" where
  "submission_named fname =
     \<lparr>submission_id = None, submission_source_id = None, filename = fname,
      submission_size = 0, downloaded = None\<rparr>"


section \<open>Properties of the slug derivation\<close>

lemma valid_chars_fixed:
  assumes "c \<in> set valid_chars"
  shows "lower_char c = c" and "c \<noteq> CHR '' ''"
  using assms unfolding valid_chars_def lower_char_def by auto

lemma slug_of_valid_text:
  assumes "set s \<subseteq> set valid_chars"
  shows "[c \<leftarrow> replace_char CHR '' '' CHR ''_'' (lower s). c \<in> set valid_chars] = s"
proof -
  have "lower s = s"
    unfolding lower_def using assms by (intro map_idI) (auto simp: valid_chars_fixed(1))
  moreover have "replace_char CHR '' '' CHR ''_'' s = s"
    unfolding replace_char_def using assms by (intro map_idI) (auto dest: valid_chars_fixed(2))
  moreover have "filter (\<lambda>c. c \<in> set valid_chars) s = s"
    using assms by (intro filter_True) auto
  ultimately show ?thesis by simp
qed

text \<open>
  Claim C6. The slug derivation \<open>journalist_filename\<close> is idempotent: a source whose
  designation is the slug of another source has that same slug. Every character of a
  slug is one of the characters a to z, 0 to 9, hyphen and underscore.
\<close>

theorem journalist_filename_idempotent:
  assumes "journalist_filename self = Inr slug"
  shows "journalist_filename (self\<lparr>journalist_designation := Some slug\<rparr>) = Inr slug
         \<and> set slug \<subseteq> set ''abcdefghijklmnopqrstuvwxyz0123456789-_''"
proof -
  from assms obtain d where
    slug: "slug = [c \<leftarrow> replace_char CHR '' '' CHR ''_'' (lower d). c \<in> set valid_chars]"
    by (auto simp: journalist_filename_def split: option.splits)
  then have sub: "set slug \<subseteq> set valid_chars" by auto
  then have again: "journalist_filename (self\<lparr>journalist_designation := Some slug\<rparr>) = Inr slug"
    by (simp add: journalist_filename_def slug_of_valid_text)
  have "set valid_chars = set ''abcdefghijklmnopqrstuvwxyz0123456789-_''"
    unfolding valid_chars_def by auto
  with sub again show ?thesis by simp
qed

theorem journalist_filename_idempotent_witness:
  "journalist_filename (Source_init None (Some ''Big Cat 7'')) = Inr ''big_cat_7''
   \<and> journalist_filename
       ((Source_init None (Some ''Big Cat 7''))\<lparr>journalist_designation := Some ''big_cat_7''\<rparr>)
     = Inr ''big_cat_7''
   \<and> set ''big_cat_7'' \<subseteq> set ''abcdefghijklmnopqrstuvwxyz0123456789-_''"
proof -
  have h: "journalist_filename (Source_init None (Some ''Big Cat 7'')) = Inr ''big_cat_7''"
    by code_simp
  show ?thesis
    using h journalist_filename_idempotent [OF h] by simp
qed

text \<open>
  Claim C7, as the code has it. For the designation \<open>Ann A!\<close> the slug is
  \<open>ann_a\<close>: the space has become an underscore before the filter runs, and the
  underscore is an allowed character. The slug is not \<open>anna\<close>.
\<close>

theorem journalist_filename_ann_a:
  "journalist_filename (Source_init None (Some ''Ann A!'')) = Inr ''ann_a''"
  by code_simp

theorem journalist_filename_ann_a_not_anna:
  "journalist_filename (Source_init None (Some ''Ann A!'')) \<noteq> Inr ''anna''"
  by code_simp

section \<open>The documents and messages aggregate\<close>

lemma doc_is_not_msg:
  assumes "endswith f ''doc.zip.gpg''"
  shows "\<not> endswith f ''msg.gpg''"
proof
  assume m: "endswith f ''msg.gpg''"
  from assms obtain p where f: "f = p @ ''doc.zip.gpg''"
    by (auto simp: endswith_def suffix_def)
  from m have "suffix ''msg.gpg'' (p @ ''doc.zip.gpg'')"
    by (simp add: endswith_def f)
  then have "suffix ''msg.gpg'' ''doc.zip.gpg''"
    by (auto simp: suffix_append)
  then show False by (simp add: suffix_to_prefix)
qed

text \<open>
  The loop, started on a dictionary that has both keys, never raises: it adds to each key
  the number of filenames with the key's suffix.
\<close>

lemma count_submissions_counts:
  assumes "d ''messages'' = Some m" and "d ''documents'' = Some n"
  shows "count_submissions ss d =
           (d(''messages'' \<mapsto> m + int (length [s \<leftarrow> ss. endswith (filename s) ''msg.gpg'']),
              ''documents'' \<mapsto>
                n + int (length [s \<leftarrow> ss. endswith (filename s) ''doc.zip.gpg''])),
            None)"
  using assms
proof (induction ss arbitrary: d m n)
  case Nil
  then show ?case by (auto simp: fun_eq_iff)
next
  case (Cons s ss)
  show ?case
  proof (cases "endswith (filename s) ''msg.gpg''")
    case True
    then have nd: "\<not> endswith (filename s) ''doc.zip.gpg''"
      using doc_is_not_msg by blast
    have "count_submissions (s # ss) d = count_submissions ss (d(''messages'' \<mapsto> m + 1))"
      using True Cons.prems by (simp add: incr_def)
    also have "\<dots> = ((d(''messages'' \<mapsto> m + 1))
        (''messages'' \<mapsto>
           (m + 1) + int (length [s \<leftarrow> ss. endswith (filename s) ''msg.gpg'']),
         ''documents'' \<mapsto>
           n + int (length [s \<leftarrow> ss. endswith (filename s) ''doc.zip.gpg''])), None)"
      using Cons.prems by (intro Cons.IH) simp_all
    finally show ?thesis using True nd by (simp add: fun_eq_iff)
  next
    case False
    note nm = False
    show ?thesis
    proof (cases "endswith (filename s) ''doc.zip.gpg''")
      case True
      have "count_submissions (s # ss) d = count_submissions ss (d(''documents'' \<mapsto> n + 1))"
        using True nm Cons.prems by (simp add: incr_def)
      also have "\<dots> = ((d(''documents'' \<mapsto> n + 1))
          (''messages'' \<mapsto> m + int (length [s \<leftarrow> ss. endswith (filename s) ''msg.gpg'']),
           ''documents'' \<mapsto>
             (n + 1) + int (length [s \<leftarrow> ss. endswith (filename s) ''doc.zip.gpg''])), None)"
        using Cons.prems by (intro Cons.IH) simp_all
      finally show ?thesis using True nm by (simp add: fun_eq_iff)
    next
      case False
      then show ?thesis using nm Cons.IH [OF Cons.prems] by simp
    qed
  qed
qed

lemma first_call:
  assumes "docs_msgs_count self = None"
  shows "documents_messages_count self =
     (Inr [''messages'' \<mapsto>
             int (length [s \<leftarrow> submissions self. endswith (filename s) ''msg.gpg'']),
           ''documents'' \<mapsto>
             int (length [s \<leftarrow> submissions self. endswith (filename s) ''doc.zip.gpg''])],
      self\<lparr>docs_msgs_count :=
        Some [''messages'' \<mapsto>
                int (length [s \<leftarrow> submissions self. endswith (filename s) ''msg.gpg'']),
              ''documents'' \<mapsto>
                int (length [s \<leftarrow> submissions self. endswith (filename s) ''doc.zip.gpg''])]\<rparr>)"
proof -
  have "count_submissions (submissions self) [''messages'' \<mapsto> 0, ''documents'' \<mapsto> 0] =
     ([''messages'' \<mapsto>
         int (length [s \<leftarrow> submissions self. endswith (filename s) ''msg.gpg'']),
       ''documents'' \<mapsto>
         int (length [s \<leftarrow> submissions self. endswith (filename s) ''doc.zip.gpg''])], None)"
    by (subst count_submissions_counts [where m = 0 and n = 0]) (simp_all add: fun_eq_iff)
  then show ?thesis using assms by (simp add: documents_messages_count_def)
qed

lemma later_call:
  assumes "docs_msgs_count self = Some d"
  shows "documents_messages_count self = (Inr d, self)"
  using assms by (simp add: documents_messages_count_def)

text \<open>
  Claim C4, as the code has it. On the first call on a Source instance (the aggregate
  has not been computed on it yet), \<open>documents_messages_count\<close> returns a mapping with the two keys \<open>messages\<close> and
  \<open>documents\<close>: \<open>messages\<close> is the number of submissions whose filename ends in
  \<open>msg.gpg\<close>, \<open>documents\<close> the number of those whose filename ends in
  \<open>doc.zip.gpg\<close>, and no other filename is counted. For the filenames
  \<open>1-msg.gpg\<close>, \<open>2-doc.zip.gpg\<close>, \<open>3-other.gpg\<close> the mapping is
  \<open>{messages: 1, documents: 1}\<close>.
\<close>

theorem documents_messages_count_counts:
  assumes "docs_msgs_count self = None"
  shows "fst (documents_messages_count self) =
           Inr [''messages'' \<mapsto>
                  int (length [s \<leftarrow> submissions self. endswith (filename s) ''msg.gpg'']),
                ''documents'' \<mapsto>
                  int (length [s \<leftarrow> submissions self. endswith (filename s) ''doc.zip.gpg''])]
         \<and> (map filename (submissions self) = [''1-msg.gpg'', ''2-doc.zip.gpg'', ''3-other.gpg'']
              \<longrightarrow> fst (documents_messages_count self)
                    = Inr [''messages'' \<mapsto> 1, ''documents'' \<mapsto> 1])"
proof (intro conjI impI)
  show general: "fst (documents_messages_count self) =
           Inr [''messages'' \<mapsto>
                  int (length [s \<leftarrow> submissions self. endswith (filename s) ''msg.gpg'']),
                ''documents'' \<mapsto>
                  int (length [s \<leftarrow> submissions self. endswith (filename s) ''doc.zip.gpg''])]"
    using assms by (simp add: first_call)
  assume names: "map filename (submissions self)
                   = [''1-msg.gpg'', ''2-doc.zip.gpg'', ''3-other.gpg'']"
  then obtain a b c where abc: "submissions self = [a, b, c]"
    and "filename a = ''1-msg.gpg''" and "filename b = ''2-doc.zip.gpg''"
    and "filename c = ''3-other.gpg''"
    by auto
  then show "fst (documents_messages_count self) = Inr [''messages'' \<mapsto> 1, ''documents'' \<mapsto> 1]"
    unfolding general by (simp add: endswith_def suffix_to_prefix)
qed

theorem documents_messages_count_counts_witness:
  "docs_msgs_count ((Source_init None (Some ''x''))
       \<lparr>submissions := [submission_named ''1-msg.gpg'', submission_named ''2-doc.zip.gpg'',
                        submission_named ''3-other.gpg'']\<rparr>) = None
   \<and> fst (documents_messages_count ((Source_init None (Some ''x''))
       \<lparr>submissions := [submission_named ''1-msg.gpg'', submission_named ''2-doc.zip.gpg'',
                        submission_named ''3-other.gpg'']\<rparr>))
     = Inr [''messages'' \<mapsto> 1, ''documents'' \<mapsto> 1]"
proof -
  let ?s = "(Source_init None (Some ''x''))
       \<lparr>submissions := [submission_named ''1-msg.gpg'', submission_named ''2-doc.zip.gpg'',
                        submission_named ''3-other.gpg'']\<rparr>"
  have h: "docs_msgs_count ?s = None"
    by (simp add: Source_init_def)
  have names: "map filename (submissions ?s) = [''1-msg.gpg'', ''2-doc.zip.gpg'', ''3-other.gpg'']"
    by (simp add: submission_named_def)
  from documents_messages_count_counts [OF h] names
  have "fst (documents_messages_count ?s) = Inr [''messages'' \<mapsto> 1, ''documents'' \<mapsto> 1]"
    by blast
  with h show ?thesis by blast
qed

text \<open>
  Claim C4 as stated, for every Source with these three submissions, fails. A source is
  asked for its counts while it has no submission and is then given the three files: the
  call returns the mapping computed before, \<open>{messages: 0, documents: 0}\<close>, not
  \<open>{messages: 1, documents: 1}\<close>.
\<close>

theorem documents_messages_count_three_files_after_empty:
  "map filename
     (submissions
        ((snd (documents_messages_count (Source_init None (Some ''x''))))
           \<lparr>submissions := [submission_named ''1-msg.gpg'', submission_named ''2-doc.zip.gpg'',
                            submission_named ''3-other.gpg'']\<rparr>))
     = [''1-msg.gpg'', ''2-doc.zip.gpg'', ''3-other.gpg'']
   \<and> fst (documents_messages_count
            ((snd (documents_messages_count (Source_init None (Some ''x''))))
               \<lparr>submissions := [submission_named ''1-msg.gpg'', submission_named ''2-doc.zip.gpg'',
                                submission_named ''3-other.gpg'']\<rparr>))
       = Inr [''messages'' \<mapsto> 0, ''documents'' \<mapsto> 0]
   \<and> fst (documents_messages_count
            ((snd (documents_messages_count (Source_init None (Some ''x''))))
               \<lparr>submissions := [submission_named ''1-msg.gpg'', submission_named ''2-doc.zip.gpg'',
                                submission_named ''3-other.gpg'']\<rparr>))
       \<noteq> Inr [''messages'' \<mapsto> 1, ''documents'' \<mapsto> 1]"
proof -
  let ?s = "Source_init None (Some ''x'')"
  let ?three = "[submission_named ''1-msg.gpg'', submission_named ''2-doc.zip.gpg'',
                 submission_named ''3-other.gpg'']"
  have fresh: "docs_msgs_count ?s = None" and empty: "submissions ?s = []"
    by (simp_all add: Source_init_def)
  from empty have "documents_messages_count ?s
               = (Inr [''messages'' \<mapsto> 0, ''documents'' \<mapsto> 0],
                  ?s\<lparr>docs_msgs_count := Some [''messages'' \<mapsto> 0, ''documents'' \<mapsto> 0]\<rparr>)"
    by (simp add: first_call [OF fresh])
  then have stale: "fst (documents_messages_count
                    ((snd (documents_messages_count ?s))\<lparr>submissions := ?three\<rparr>))
          = Inr [''messages'' \<mapsto> 0, ''documents'' \<mapsto> 0]"
    by (simp add: later_call)
  have names: "map filename
     (submissions ((snd (documents_messages_count ?s))\<lparr>submissions := ?three\<rparr>))
     = [''1-msg.gpg'', ''2-doc.zip.gpg'', ''3-other.gpg'']"
    by (simp add: submission_named_def)
  have differ: "[''messages'' \<mapsto> 0::int, ''documents'' \<mapsto> 0]
                  \<noteq> [''messages'' \<mapsto> 1, ''documents'' \<mapsto> 1]"
  proof
    assume "[''messages'' \<mapsto> 0::int, ''documents'' \<mapsto> 0]
              = [''messages'' \<mapsto> 1, ''documents'' \<mapsto> 1]"
    then have "[''messages'' \<mapsto> 0::int, ''documents'' \<mapsto> 0] ''messages''
                 = [''messages'' \<mapsto> 1::int, ''documents'' \<mapsto> 1] ''messages''"
      by simp
    then show False by simp
  qed
  from names stale differ show ?thesis by simp
qed

text \<open>
  Claim C5, as the code has it. The counts are computed once for an instance. After a
  call of \<open>documents_messages_count\<close>, a later call on the same instance returns the
  mapping of the earlier call, whatever the Submission collection has become in between.
\<close>

theorem documents_messages_count_memoized:
  "fst (documents_messages_count ((snd (documents_messages_count self))\<lparr>submissions := ss\<rparr>))
     = fst (documents_messages_count self)"
proof (cases "docs_msgs_count self")
  case None
  then show ?thesis by (simp add: first_call later_call)
next
  case (Some d)
  then show ?thesis by (simp add: later_call)
qed

text \<open>
  Claim C5 as stated fails. A source without submissions is asked for its counts, then a
  message is added to its collection. The second call does not return what counting the
  changed collection gives.
\<close>

theorem documents_messages_count_stale:
  "fst (documents_messages_count
          ((snd (documents_messages_count (Source_init None (Some ''x''))))
             \<lparr>submissions := [submission_named ''1-msg.gpg'']\<rparr>))
     \<noteq> fst (documents_messages_count
              ((Source_init None (Some ''x''))\<lparr>submissions := [submission_named ''1-msg.gpg'']\<rparr>))"
proof
  let ?s = "Source_init None (Some ''x'')"
  let ?m = "submission_named ''1-msg.gpg''"
  assume same: "fst (documents_messages_count
          ((snd (documents_messages_count ?s))\<lparr>submissions := [?m]\<rparr>))
     = fst (documents_messages_count (?s\<lparr>submissions := [?m]\<rparr>))"
  have fresh: "docs_msgs_count ?s = None" "docs_msgs_count (?s\<lparr>submissions := [?m]\<rparr>) = None"
    by (simp_all add: Source_init_def)
  have "submissions ?s = []"
    by (simp add: Source_init_def)
  then have "documents_messages_count ?s
               = (Inr [''messages'' \<mapsto> 0, ''documents'' \<mapsto> 0],
                  ?s\<lparr>docs_msgs_count := Some [''messages'' \<mapsto> 0, ''documents'' \<mapsto> 0]\<rparr>)"
    by (simp add: first_call [OF fresh(1)])
  then have "fst (documents_messages_count
                    ((snd (documents_messages_count ?s))\<lparr>submissions := [?m]\<rparr>))
          = Inr [''messages'' \<mapsto> 0, ''documents'' \<mapsto> 0]"
    by (simp add: later_call)
  moreover have "fst (documents_messages_count (?s\<lparr>submissions := [?m]\<rparr>))
          = Inr [''messages'' \<mapsto> 1, ''documents'' \<mapsto> 0]"
    unfolding first_call [OF fresh(2)]
    by (simp add: submission_named_def endswith_def suffix_to_prefix)
  ultimately have "[''messages'' \<mapsto> 0::int, ''documents'' \<mapsto> 0]
                     = [''messages'' \<mapsto> 1, ''documents'' \<mapsto> 0]"
    using same by simp
  then have "[''messages'' \<mapsto> 0::int, ''documents'' \<mapsto> 0] ''messages''
               = [''messages'' \<mapsto> 1::int, ''documents'' \<mapsto> 0] ''messages''"
    by simp
  then show False by simp
qed

section \<open>SourceStar equality\<close>

text \<open>
  Claim C9. For two SourceStar instances, \<open>__eq__\<close> answers true exactly when the
  source reference, the record id and the starred state are the same in both. For an
  object of any other kind it answers \<open>NotImplemented\<close>: equality is affirmed only of
  a SourceStar with the same three fields.
\<close>

theorem SourceStar_eq_fields:
  "SourceStar_eq a (A_SourceStar b)
     = Bool (source_id a = source_id b \<and> star_id a = star_id b \<and> starred a = starred b)
   \<and> ((\<forall>s. other \<noteq> A_SourceStar s) \<longrightarrow> SourceStar_eq a other = NotImplemented)
   \<and> (SourceStar_eq a other = Bool True \<longleftrightarrow>
        (\<exists>s. other = A_SourceStar s \<and> source_id a = source_id s \<and> star_id a = star_id s
              \<and> starred a = starred s))"
  by (cases other) auto

theorem SourceStar_eq_fields_witness:
  "(\<forall>s. PyInt 1 \<noteq> A_SourceStar s)
   \<and> SourceStar_eq (SourceStar_init (Source_init None None) True) (PyInt 1) = NotImplemented
   \<and> SourceStar_eq (SourceStar_init (Source_init None None) True)
        (A_SourceStar (SourceStar_init (Source_init None None) True)) = Bool True
   \<and> SourceStar_eq (SourceStar_init (Source_init None None) True)
        (A_SourceStar (SourceStar_init (Source_init None None) False)) = Bool False"
proof -
  have h: "\<forall>s. PyInt 1 \<noteq> A_SourceStar s" by simp
  from SourceStar_eq_fields [where a = "SourceStar_init (Source_init None None) True"
                               and other = "PyInt 1"] h
  have "SourceStar_eq (SourceStar_init (Source_init None None) True) (PyInt 1) = NotImplemented"
    by blast
  moreover
  from SourceStar_eq_fields [where a = "SourceStar_init (Source_init None None) True"
                               and b = "SourceStar_init (Source_init None None) True"]
  have "SourceStar_eq (SourceStar_init (Source_init None None) True)
          (A_SourceStar (SourceStar_init (Source_init None None) True)) = Bool True"
    by simp
  moreover
  from SourceStar_eq_fields [where a = "SourceStar_init (Source_init None None) True"
                               and b = "SourceStar_init (Source_init None None) False"]
  have "SourceStar_eq (SourceStar_init (Source_init None None) True)
          (A_SourceStar (SourceStar_init (Source_init None None) False)) = Bool False"
    by (simp add: SourceStar_init_def)
  ultimately show ?thesis using h by blast
qed

section \<open>Passwords and login\<close>

text \<open>
  Claim C1. A journalist constructed with a password stores the credential hash of that
  password under the stored salt, so \<open>valid_password\<close> accepts the password. For any
  journalist, \<open>valid_password\<close> rejects a password whose hash under the stored salt
  differs from the stored hash.
\<close>

theorem valid_password_round_trip:
  "pw_hash (Journalist_init kdf urandom uname password admin)
     = scrypt_hash kdf password
         (pw_salt (Journalist_init kdf urandom uname password admin)) None
   \<and> fst (valid_password kdf (Journalist_init kdf urandom uname password admin) password) = True
   \<and> (scrypt_hash kdf p (pw_salt j) None \<noteq> pw_hash j
        \<longrightarrow> fst (valid_password kdf j p) = False)"
  by (simp add: Journalist_init_def valid_password_def Let_def)

theorem valid_password_round_trip_witness:
  "scrypt_hash toy_kdf ''wrong''
       (pw_salt (Journalist_init toy_kdf toy_urandom ''alice'' ''correct'' False)) None
     \<noteq> pw_hash (Journalist_init toy_kdf toy_urandom ''alice'' ''correct'' False)
   \<and> fst (valid_password toy_kdf
            (Journalist_init toy_kdf toy_urandom ''alice'' ''correct'' False) ''wrong'') = False
   \<and> fst (valid_password toy_kdf
            (Journalist_init toy_kdf toy_urandom ''alice'' ''correct'' False) ''correct'') = True"
proof -
  let ?alice = "Journalist_init toy_kdf toy_urandom ''alice'' ''correct'' False"
  have h: "scrypt_hash toy_kdf ''wrong'' (pw_salt ?alice) None \<noteq> pw_hash ?alice"
    by (simp add: Journalist_init_def scrypt_hash_def toy_kdf_def Let_def)
  from valid_password_round_trip
         [where kdf = toy_kdf and urandom = toy_urandom and uname = "''alice''"
            and password = "''correct''" and admin = False and p = "''wrong''" and j = ?alice] h
  show ?thesis by blast
qed

lemma one_single: "one rs = Inr r \<longleftrightarrow> rs = [r]"
  by (auto simp: one_def split: list.splits)

lemma two_or_more:
  assumes "2 \<le> length rs"
  obtains a b rest where "rs = a # b # rest"
  using assms by (auto simp: numeral_2_eq_2 Suc_le_length_iff)

lemma match_cases:
  obtains "rs = []" | r where "rs = [r]" | "2 \<le> length rs"
proof (cases rs)
  case Nil
  then show ?thesis using that by blast
next
  case (Cons a rest)
  then show ?thesis using that by (cases rest) simp_all
qed

lemma one_many:
  assumes "2 \<le> length rs"
  shows "one rs = Inl (MultipleResultsFound ''Multiple rows were found for one()'')"
proof -
  from assms obtain a b rest where "rs = a # b # rest" by (rule two_or_more)
  then show ?thesis by (simp add: one_def)
qed



lemma writeback_same:
  assumes "[j \<leftarrow> table. username j = uname] = [user]"
  shows "map (\<lambda>j. if username j = uname then user else j) table = table"
proof (intro map_idI)
  fix j assume member: "j \<in> set table"
  show "(if username j = uname then user else j) = j"
  proof (cases "username j = uname")
    case True
    with member have "j \<in> set [j \<leftarrow> table. username j = uname]" by simp
    with assms have "j = user" by simp
    then show ?thesis by simp
  next
    case False
    then show ?thesis by simp
  qed
qed

text \<open>
  Claim C8. \<open>login\<close> and \<open>valid_password\<close> write nothing. The table of journalists
  after a login is the table before it, so every field of every record (last_access,
  salt and hash among them) is as it was, whatever the outcome; and
  \<open>valid_password\<close> leaves its journalist as it was.
\<close>

theorem login_writes_nothing:
  "snd (login kdf table uname password) = table
   \<and> snd (valid_password kdf j password) = j"
proof -
  have "snd (login kdf table uname password) = table"
  proof (cases "one [j \<leftarrow> table. username j = uname]")
    case (Inl x)
    then show ?thesis by (cases x) (simp_all add: login_def)
  next
    case (Inr user)
    then have "[j \<leftarrow> table. username j = uname] = [user]"
      by (simp add: one_single)
    then have "map (\<lambda>j. if username j = uname then user else j) table = table"
      by (rule writeback_same)
    then show ?thesis using Inr by (simp add: login_def valid_password_def)
  qed
  then show ?thesis by (simp add: valid_password_def)
qed

section \<open>The single-result helper\<close>

lemma events_none:
  assumes "rows query = []"
  shows "snd (get_one_or_else query failure_method)
          = [LoggerError ''Found none when one was expected: No row was found for one()'',
             FailureMethod 404]"
  using assms by (cases "failure_method 404") (simp_all add: get_one_or_else_def one_def)

lemma events_many:
  assumes "2 \<le> length (rows query)"
  shows "snd (get_one_or_else query failure_method)
          = [LoggerError (''Found multiple while executing '' @ query_text query
                          @ '' when one was expected: Multiple rows were found for one()''),
             FailureMethod 500]"
proof -
  from assms have "one (rows query)
                     = Inl (MultipleResultsFound ''Multiple rows were found for one()'')"
    by (rule one_many)
  then show ?thesis
    by (cases "failure_method 500") (simp_all add: get_one_or_else_def)
qed

lemma result_none:
  assumes "rows query = []"
  shows "fst (get_one_or_else query failure_method)
           = Inl (case failure_method 404 of
                    None \<Rightarrow> UnboundLocalError ''return_value'' | Some x \<Rightarrow> x)"
  using assms by (cases "failure_method 404") (simp_all add: get_one_or_else_def one_def)

lemma result_many:
  assumes "2 \<le> length (rows query)"
  shows "fst (get_one_or_else query failure_method)
           = Inl (case failure_method 500 of
                    None \<Rightarrow> UnboundLocalError ''return_value'' | Some x \<Rightarrow> x)"
proof -
  from assms have "one (rows query)
                     = Inl (MultipleResultsFound ''Multiple rows were found for one()'')"
    by (rule one_many)
  then show ?thesis
    by (cases "failure_method 500") (simp_all add: get_one_or_else_def)
qed

lemma result_single:
  assumes "rows query = [r]"
  shows "get_one_or_else query failure_method = (Inr r, [])"
  using assms by (simp add: get_one_or_else_def one_def)

text \<open>
  Claim C3, as the code has it. With exactly one match \<open>get_one_or_else\<close> returns the
  record, logs nothing and does not call the failure method. With no match it logs
  \<open>Found none when one was expected:\<close> followed by the text of the exception, which
  does not depend on the query, and calls the failure method with 404. With two or more
  matches it logs a message that contains the text of the query and calls the failure
  method with 500; it never returns a record then, the first match included.
\<close>

theorem get_one_or_else_classifies:
  "(rows query = [r] \<longrightarrow> get_one_or_else query failure_method = (Inr r, []))
   \<and> (rows query = [] \<longrightarrow>
        snd (get_one_or_else query failure_method)
          = [LoggerError ''Found none when one was expected: No row was found for one()'',
             FailureMethod 404])
   \<and> (2 \<le> length (rows query) \<longrightarrow>
        snd (get_one_or_else query failure_method)
          = [LoggerError (''Found multiple while executing '' @ query_text query
                          @ '' when one was expected: Multiple rows were found for one()''),
             FailureMethod 500]
        \<and> logs_text (query_text query) (snd (get_one_or_else query failure_method))
        \<and> (\<forall>v. fst (get_one_or_else query failure_method) \<noteq> Inr v))"
proof (intro conjI impI)
  assume "rows query = [r]"
  then show "get_one_or_else query failure_method = (Inr r, [])"
    by (rule result_single)
next
  assume "rows query = []"
  then show "snd (get_one_or_else query failure_method)
          = [LoggerError ''Found none when one was expected: No row was found for one()'',
             FailureMethod 404]"
    by (rule events_none)
next
  assume many: "2 \<le> length (rows query)"
  then show ev: "snd (get_one_or_else query failure_method)
          = [LoggerError (''Found multiple while executing '' @ query_text query
                          @ '' when one was expected: Multiple rows were found for one()''),
             FailureMethod 500]"
    by (rule events_many)
  have "sublist (query_text query)
          (''Found multiple while executing '' @ query_text query
           @ '' when one was expected: Multiple rows were found for one()'')"
    unfolding sublist_def by blast
  then show "logs_text (query_text query) (snd (get_one_or_else query failure_method))"
    unfolding ev logs_text_def logged_def by simp
  from many show "\<forall>v. fst (get_one_or_else query failure_method) \<noteq> Inr v"
    by (simp add: result_many)
qed

theorem get_one_or_else_classifies_witness:
  "get_one_or_else \<lparr>query_text = ''SELECT 7'', rows = [Source_init None None]\<rparr>
       aborting
     = (Inr (Source_init None None), [])
   \<and> snd (get_one_or_else \<lparr>query_text = ''SELECT 7'', rows = [] :: source list\<rparr>
            aborting)
     = [LoggerError ''Found none when one was expected: No row was found for one()'',
        FailureMethod 404]
   \<and> logs_text ''SELECT 7''
       (snd (get_one_or_else
               \<lparr>query_text = ''SELECT 7'',
                rows = [Source_init None None, Source_init None None]\<rparr>
               aborting))"
proof -
  let ?q1 = "\<lparr>query_text = ''SELECT 7'', rows = [Source_init None None]\<rparr>"
  let ?q0 = "\<lparr>query_text = ''SELECT 7'', rows = [] :: source list\<rparr>"
  let ?q2 = "\<lparr>query_text = ''SELECT 7'',
              rows = [Source_init None None, Source_init None None]\<rparr>"
  have h1: "rows ?q1 = [Source_init None None]" by simp
  have h0: "rows ?q0 = []" by simp
  have h2: "2 \<le> length (rows ?q2)" by simp
  from get_one_or_else_classifies [where query = ?q1 and r = "Source_init None None"
                                     and failure_method = aborting] h1
  have "get_one_or_else ?q1 aborting = (Inr (Source_init None None), [])"
    by blast
  moreover
  from get_one_or_else_classifies [where query = ?q0 and failure_method = aborting] h0
  have "snd (get_one_or_else ?q0 aborting)
          = [LoggerError ''Found none when one was expected: No row was found for one()'',
             FailureMethod 404]"
    by blast
  moreover
  from get_one_or_else_classifies [where query = ?q2 and failure_method = aborting] h2
  have "logs_text (query_text ?q2) (snd (get_one_or_else ?q2 aborting))"
    by blast
  then have "logs_text ''SELECT 7'' (snd (get_one_or_else ?q2 aborting))"
    by simp
  ultimately show ?thesis by blast
qed

text \<open>
  Claim C3 as stated fails on the path without a match: the message logged there does
  not contain the text of the query.
\<close>

theorem get_one_or_else_none_omits_query:
  "\<not> logs_text ''SELECT * FROM sources WHERE id = 7''
      (snd (get_one_or_else
              \<lparr>query_text = ''SELECT * FROM sources WHERE id = 7'', rows = [] :: source list\<rparr>
              aborting))"
  by (simp add: events_none logs_text_def logged_def sublist_code)

text \<open>
  Claim C10. When the query has no match or several, and the failure method returns
  instead of raising, \<open>get_one_or_else\<close> raises \<open>UnboundLocalError\<close> for
  \<open>return_value\<close>. Whenever it returns a record, the query has exactly that one match.
\<close>

theorem get_one_or_else_unbound:
  "(rows query = [] \<and> failure_method 404 = None
      \<longrightarrow> fst (get_one_or_else query failure_method) = Inl (UnboundLocalError ''return_value''))
   \<and> (2 \<le> length (rows query) \<and> failure_method 500 = None
      \<longrightarrow> fst (get_one_or_else query failure_method) = Inl (UnboundLocalError ''return_value''))
   \<and> (fst (get_one_or_else query failure_method) = Inr v \<longrightarrow> rows query = [v])"
proof (intro conjI impI)
  assume "rows query = [] \<and> failure_method 404 = None"
  then show "fst (get_one_or_else query failure_method) = Inl (UnboundLocalError ''return_value'')"
    by (simp add: result_none)
next
  assume "2 \<le> length (rows query) \<and> failure_method 500 = None"
  then show "fst (get_one_or_else query failure_method) = Inl (UnboundLocalError ''return_value'')"
    by (simp add: result_many)
next
  assume returned: "fst (get_one_or_else query failure_method) = Inr v"
  show "rows query = [v]"
  proof (cases "rows query" rule: match_cases)
    case 1
    with returned show ?thesis by (simp add: result_none)
  next
    case (2 r)
    with returned show ?thesis by (simp add: result_single)
  next
    case 3
    with returned show ?thesis by (simp add: result_many)
  qed
qed

theorem get_one_or_else_unbound_witness:
  "fst (get_one_or_else \<lparr>query_text = ''SELECT 7'', rows = [] :: source list\<rparr> returning)
     = Inl (UnboundLocalError ''return_value'')
   \<and> fst (get_one_or_else
            \<lparr>query_text = ''SELECT 7'',
             rows = [Source_init None None, Source_init None None]\<rparr> returning)
     = Inl (UnboundLocalError ''return_value'')
   \<and> fst (get_one_or_else \<lparr>query_text = ''SELECT 7'', rows = [Source_init None None]\<rparr>
            returning)
     = Inr (Source_init None None)
   \<and> rows \<lparr>query_text = ''SELECT 7'', rows = [Source_init None None]\<rparr> = [Source_init None None]"
proof -
  let ?q1 = "\<lparr>query_text = ''SELECT 7'', rows = [Source_init None None]\<rparr>"
  let ?q0 = "\<lparr>query_text = ''SELECT 7'', rows = [] :: source list\<rparr>"
  let ?q2 = "\<lparr>query_text = ''SELECT 7'',
              rows = [Source_init None None, Source_init None None]\<rparr>"
  have h0: "rows ?q0 = [] \<and> returning 404 = None" by (simp add: returning_def)
  have h2: "2 \<le> length (rows ?q2) \<and> returning 500 = None" by (simp add: returning_def)
  have h1: "fst (get_one_or_else ?q1 returning) = Inr (Source_init None None)"
    by (simp add: get_one_or_else_def one_def)
  from get_one_or_else_unbound [where query = ?q0 and failure_method = returning] h0
  have "fst (get_one_or_else ?q0 returning) = Inl (UnboundLocalError ''return_value'')"
    by blast
  moreover
  from get_one_or_else_unbound [where query = ?q2 and failure_method = returning] h2
  have "fst (get_one_or_else ?q2 returning) = Inl (UnboundLocalError ''return_value'')"
    by blast
  moreover
  from get_one_or_else_unbound [where query = ?q1 and failure_method = returning
                                  and v = "Source_init None None"] h1
  have "rows ?q1 = [Source_init None None]"
    by blast
  ultimately show ?thesis using h1 by blast
qed

end
